theory Spec2Isabelle
  imports Main "HOL-Library.Word"
begin

unbundle bit_operations_syntax

section \<open>Python values and their operations\<close>

text \<open>
  The values that \<^verbatim>\<open>response.json()\<close> and \<^verbatim>\<open>json.load\<close> return. A dict is an
  association list read with \<open>map_of\<close>; Python's \<^verbatim>\<open>None\<close> is \<open>JNull\<close>. JSON numbers
  are integers here: a fractional \<^verbatim>\<open>expires_in\<close> is outside the model.
\<close>

datatype json =
    JNull
  | JBool bool
  | JInt int
  | JStr string
  | JList "json list"
  | JObj "(string \<times> json) list"

text \<open>
  The exceptions the program can meet. \<open>HTTPError msg body\<close> is
  \<^verbatim>\<open>requests.HTTPError\<close> as \<^verbatim>\<open>raise_for_status\<close> raises it (\<open>body\<close> is
  \<^verbatim>\<open>e.response.text\<close>, \<open>None\<close> when \<^verbatim>\<open>e.response is None\<close>); \<open>RequestException\<close>
  stands for every other exception of the \<^verbatim>\<open>requests\<close> library (a connection error, a
  body that is not JSON), none of which is an \<^verbatim>\<open>HTTPError\<close>. \<open>SystemExit n\<close> is
  \<^verbatim>\<open>sys.exit(n)\<close>. \<open>PermissionError\<close> is what \<^verbatim>\<open>open(path, 'w')\<close> raises on a file
  that its owner may not write.
\<close>

datatype exn =
    KeyError
  | IndexError
  | TypeError
  | AttributeError
  | JSONDecodeError
  | PermissionError
  | HTTPError string "string option"
  | RequestException
  | SystemExit int

text \<open>\<^verbatim>\<open>v[k]\<close> with a string key: only a dict can be subscripted by a string.\<close>

fun subscript :: "json \<Rightarrow> string \<Rightarrow> exn + json" where
  "subscript (JObj kvs) k = (case map_of kvs k of None \<Rightarrow> Inl KeyError | Some v \<Rightarrow> Inr v)"
| "subscript _ k = Inl TypeError"

text \<open>\<^verbatim>\<open>v[0]\<close>: the first element of a list or of a string; a dict has no key \<open>0\<close>.\<close>

fun subscript0 :: "json \<Rightarrow> exn + json" where
  "subscript0 (JList []) = Inl IndexError"
| "subscript0 (JList (x # xs)) = Inr x"
| "subscript0 (JStr []) = Inl IndexError"
| "subscript0 (JStr (c # cs)) = Inr (JStr [c])"
| "subscript0 (JObj kvs) = Inl KeyError"
| "subscript0 _ = Inl TypeError"

text \<open>\<^verbatim>\<open>v.get(k, d)\<close>: only a dict has the method.\<close>

fun dict_get :: "json \<Rightarrow> string \<Rightarrow> json \<Rightarrow> exn + json" where
  "dict_get (JObj kvs) k d = Inr (case map_of kvs k of None \<Rightarrow> d | Some v \<Rightarrow> v)"
| "dict_get _ k d = Inl AttributeError"

text \<open>Truth value testing, as \<^verbatim>\<open>not v\<close> uses it.\<close>

fun truthy :: "json \<Rightarrow> bool" where
  "truthy JNull = False"
| "truthy (JBool b) = b"
| "truthy (JInt n) = (n \<noteq> 0)"
| "truthy (JStr s) = (s \<noteq> [])"
| "truthy (JList xs) = (xs \<noteq> [])"
| "truthy (JObj kvs) = (kvs \<noteq> [])"

text \<open>
  The values Python's integer arithmetic and comparison accept beside an \<^verbatim>\<open>int\<close>:
  \<^verbatim>\<open>True\<close> is 1 and \<^verbatim>\<open>False\<close> is 0; with anything else \<^verbatim>\<open>+\<close>, \<^verbatim>\<open>-\<close> and \<^verbatim>\<open>>\<close>
  raise \<^verbatim>\<open>TypeError\<close>.
\<close>

fun as_int :: "json \<Rightarrow> int option" where
  "as_int (JInt n) = Some n"
| "as_int (JBool b) = Some (if b then 1 else 0)"
| "as_int _ = None"

definition py_add :: "int \<Rightarrow> json \<Rightarrow> exn + json" where
  "py_add a v = (case as_int v of None \<Rightarrow> Inl TypeError | Some n \<Rightarrow> Inr (JInt (a + n)))"

section \<open>The world the program runs in\<close>

type_synonym mode = "32 word"

text \<open>
  A file of the data directory holds either the text \<^verbatim>\<open>json.dump\<close> wrote for a value
  (\<open>Doc v\<close>, which \<^verbatim>\<open>json.load\<close> reads back as \<open>v\<close>) or any other text (\<open>Text s\<close>, on
  which \<^verbatim>\<open>json.load\<close> raises). The program runs as the unprivileged user who owns
  the data directory and its files: creating, reading, removing and \<^verbatim>\<open>chmod\<close>-ing a
  file there succeed, and opening an existing file for writing succeeds when its mode
  has the owner's write bit (0200).
\<close>

datatype content = Doc json | Text string

record entry =
  data :: content
  perm :: mode

datatype channel = Stdout | Stderr

text \<open>
  A line printed by \<^verbatim>\<open>click.echo\<close>: the literal parts of the f-string and the values
  interpolated into it (\<open>Val v\<close> stands for \<^verbatim>\<open>str(v)\<close>).
\<close>

datatype fragment = Lit string | Val json

text \<open>The six requests of the provider client, each with the argument the caller passes.\<close>

datatype request =
    ExchangeCode string
  | RefreshToken json
  | XboxLive json
  | XSTS json
  | MinecraftAuth json json
  | Profile json

text \<open>
  What a request meets: a response that passes \<^verbatim>\<open>raise_for_status\<close> and whose body is
  the JSON value (\<open>Ok\<close>), a 4xx/5xx response (\<open>Rejected msg body\<close>), or a failure of
  the transport or of the body's decoding (\<open>Failed\<close>).
\<close>

datatype response = Ok json | Rejected string string | Failed

record world =
  dir_exists :: bool
  files :: "string \<rightharpoonup> entry"
  ticks :: nat
  traffic :: "(request \<times> response) list"
  browser :: "string list"
  console :: "(channel \<times> fragment list) list"

text \<open>
  What the program reads from its environment: the home directory, the process umask,
  the clock (\<open>clock env n\<close> is what the \<open>n\<close>-th call of \<^verbatim>\<open>int(time.time())\<close>
  returns), the providers (\<open>server env n q\<close> answers request \<open>q\<close> when \<open>n\<close> requests
  went before), the line the user pastes at the prompt, and the standard library's
  \<^verbatim>\<open>parse_qs(urlparse(url).query)\<close>.
\<close>

record env =
  home :: string
  umask :: mode
  clock :: "nat \<Rightarrow> int"
  server :: "nat \<Rightarrow> request \<Rightarrow> response"
  pasted :: string
  query_params :: "string \<Rightarrow> (string \<rightharpoonup> string list)"

type_synonym 'a prog = "world \<Rightarrow> (exn + 'a) \<times> world"

definition return :: "'a \<Rightarrow> 'a prog" where
  "return x w = (Inr x, w)"

definition raise :: "exn \<Rightarrow> 'a prog" where
  "raise e w = (Inl e, w)"

definition lift :: "exn + 'a \<Rightarrow> 'a prog" where
  "lift r w = (r, w)"

definition bind :: "'a prog \<Rightarrow> ('a \<Rightarrow> 'b prog) \<Rightarrow> 'b prog" where
  "bind m f w = (case m w of (Inl e, w') \<Rightarrow> (Inl e, w') | (Inr x, w') \<Rightarrow> f x w')"

text \<open>\<^verbatim>\<open>try: body except requests.HTTPError as e: handler\<close>: no other exception is caught.\<close>

definition try_except :: "'a prog \<Rightarrow> (string \<Rightarrow> string option \<Rightarrow> 'a prog) \<Rightarrow> 'a prog" where
  "try_except body handler w =
     (case body w of
        (Inl (HTTPError msg text), w') \<Rightarrow> handler msg text w'
      | r \<Rightarrow> r)"

definition sys_exit :: "int \<Rightarrow> 'a prog" where
  "sys_exit n = raise (SystemExit n)"

definition echo :: "fragment list \<Rightarrow> unit prog" where
  "echo line w = (Inr (), w\<lparr>console := console w @ [(Stdout, line)]\<rparr>)"

definition echo_err :: "fragment list \<Rightarrow> unit prog" where
  "echo_err line w = (Inr (), w\<lparr>console := console w @ [(Stderr, line)]\<rparr>)"

definition webbrowser_open :: "string \<Rightarrow> unit prog" where
  "webbrowser_open url w = (Inr (), w\<lparr>browser := browser w @ [url]\<rparr>)"

definition click_prompt :: "env \<Rightarrow> string prog" where
  "click_prompt env w = (Inr (pasted env), w)"

definition time_time :: "env \<Rightarrow> int prog" where
  "time_time env w = (Inr (clock env (ticks w)), w\<lparr>ticks := Suc (ticks w)\<rparr>)"

text \<open>
  \<^verbatim>\<open>response = requests.post(...); response.raise_for_status(); return response.json()\<close>,
  the body every function of the provider client ends with. The exchange is logged.
\<close>

definition http :: "env \<Rightarrow> request \<Rightarrow> json prog" where
  "http env q w =
     (let r = server env (length (traffic w)) q;
          w' = w\<lparr>traffic := traffic w @ [(q, r)]\<rparr>
      in case r of
           Ok v \<Rightarrow> (Inr v, w')
         | Rejected msg body \<Rightarrow> (Inl (HTTPError msg (Some body)), w')
         | Failed \<Rightarrow> (Inl RequestException, w'))"

section \<open>Token store\<close>

definition data_dir_path :: "env \<Rightarrow> string" where
  "data_dir_path env = home env @ ''/.local/share/nixcraft/auth''"

definition get_data_dir :: "env \<Rightarrow> string prog" where
  "get_data_dir env w = (Inr (data_dir_path env), w\<lparr>dir_exists := True\<rparr>)"

text \<open>
  \<^verbatim>\<open>open(path, 'w')\<close>: a new file is created empty with mode
  \<^verbatim>\<open>0o666 & ~umask\<close>; an existing file is truncated and keeps its mode, unless its
  mode lacks the owner's write bit: then the call raises and the file is untouched.
\<close>

definition open_w :: "env \<Rightarrow> string \<Rightarrow> unit prog" where
  "open_w env name w =
     (case files w name of
        None \<Rightarrow>
          (Inr (), w\<lparr>files := (files w)(name \<mapsto>
                     \<lparr>data = Text [], perm = 0x1B6 AND NOT (umask env)\<rparr>)\<rparr>)
      | Some f \<Rightarrow>
          if perm f AND 0x80 = 0 then (Inl PermissionError, w)
          else (Inr (), w\<lparr>files := (files w)(name \<mapsto> f\<lparr>data := Text []\<rparr>)\<rparr>))"

text \<open>Writing to the file just opened and closing it: the content changes, the mode does not.\<close>

definition write_close :: "string \<Rightarrow> content \<Rightarrow> unit prog" where
  "write_close name c w =
     (Inr (), w\<lparr>files := (files w)(name := map_option (\<lambda>f. f\<lparr>data := c\<rparr>) (files w name))\<rparr>)"

definition os_chmod :: "string \<Rightarrow> mode \<Rightarrow> unit prog" where
  "os_chmod name m w =
     (Inr (), w\<lparr>files := (files w)(name := map_option (\<lambda>f. f\<lparr>perm := m\<rparr>) (files w name))\<rparr>)"

text \<open>The part of \<^verbatim>\<open>save_tokens\<close> before its \<^verbatim>\<open>os.chmod\<close>: the \<^verbatim>\<open>with\<close> block.\<close>

definition save_tokens_write :: "env \<Rightarrow> json \<Rightarrow> string \<Rightarrow> unit prog" where
  "save_tokens_write env d filename =
     bind (get_data_dir env) (\<lambda>_.
     bind (open_w env filename) (\<lambda>_.
     write_close filename (Doc d)))"

definition save_tokens :: "env \<Rightarrow> json \<Rightarrow> string \<Rightarrow> unit prog" where
  "save_tokens env d filename =
     bind (save_tokens_write env d filename) (\<lambda>_.
     os_chmod filename 0x180)"

definition load_tokens :: "env \<Rightarrow> string \<Rightarrow> json prog" where
  "load_tokens env filename =
     bind (get_data_dir env) (\<lambda>_ w.
       case files w filename of
         None \<Rightarrow> (Inr JNull, w)
       | Some f \<Rightarrow> (case data f of Doc v \<Rightarrow> (Inr v, w) | Text s \<Rightarrow> (Inl JSONDecodeError, w)))"

section \<open>Provider client\<close>

definition MS_AUTH_URL :: string where
  "MS_AUTH_URL = ''https://login.live.com/oauth20_authorize.srf''"

text \<open>
  \<^verbatim>\<open>urlencode(params)\<close> of the four fixed parameters (client id, response type, redirect
  URI and scope) is a fixed string, written out here.
\<close>

definition microsoft_oauth_url :: string where
  "microsoft_oauth_url = MS_AUTH_URL @ ''?'' @
     ''client_id=00000000402b5328&response_type=code'' @
     ''&redirect_uri=https%3A%2F%2Flogin.live.com%2Foauth20_desktop.srf'' @
     ''&scope=XboxLive.signin+offline_access''"

definition exchange_code_for_token :: "env \<Rightarrow> string \<Rightarrow> json prog" where
  "exchange_code_for_token env code = http env (ExchangeCode code)"

definition refresh_microsoft_token :: "env \<Rightarrow> json \<Rightarrow> json prog" where
  "refresh_microsoft_token env refresh_token = http env (RefreshToken refresh_token)"

definition xbox_live_auth :: "env \<Rightarrow> json \<Rightarrow> json prog" where
  "xbox_live_auth env ms_access_token = http env (XboxLive ms_access_token)"

definition xsts_auth :: "env \<Rightarrow> json \<Rightarrow> json prog" where
  "xsts_auth env xbl_token = http env (XSTS xbl_token)"

definition minecraft_auth :: "env \<Rightarrow> json \<Rightarrow> json \<Rightarrow> json prog" where
  "minecraft_auth env xsts_token user_hash = http env (MinecraftAuth xsts_token user_hash)"

definition get_minecraft_profile :: "env \<Rightarrow> json \<Rightarrow> json prog" where
  "get_minecraft_profile env mc_access_token = http env (Profile mc_access_token)"

section \<open>Credential orchestrator\<close>

text \<open>
  The dict literal that \<^verbatim>\<open>full_auth_flow\<close> returns is evaluated entry by entry, in the
  order written: the clock is read and \<^verbatim>\<open>expires_in\<close> added before the profile's
  fields are looked up.
\<close>

definition full_auth_flow :: "env \<Rightarrow> json \<Rightarrow> json prog" where
  "full_auth_flow env ms_access_token =
     bind (echo [Lit ''Authenticating with Xbox Live...'']) (\<lambda>_.
     bind (xbox_live_auth env ms_access_token) (\<lambda>xbl_response.
     bind (lift (subscript xbl_response ''Token'')) (\<lambda>xbl_token.
     bind (lift (subscript xbl_response ''DisplayClaims'')) (\<lambda>display_claims.
     bind (lift (subscript display_claims ''xui'')) (\<lambda>xui.
     bind (lift (subscript0 xui)) (\<lambda>xui0.
     bind (lift (subscript xui0 ''uhs'')) (\<lambda>user_hash.
     bind (echo [Lit ''Getting XSTS token...'']) (\<lambda>_.
     bind (xsts_auth env xbl_token) (\<lambda>xsts_response.
     bind (lift (subscript xsts_response ''Token'')) (\<lambda>xsts_token.
     bind (echo [Lit ''Authenticating with Minecraft...'']) (\<lambda>_.
     bind (minecraft_auth env xsts_token user_hash) (\<lambda>mc_response.
     bind (lift (subscript mc_response ''access_token'')) (\<lambda>mc_access_token.
     bind (lift (dict_get mc_response ''expires_in'' (JInt 86400))) (\<lambda>mc_expires_in.
     bind (echo [Lit ''Fetching Minecraft profile...'']) (\<lambda>_.
     bind (get_minecraft_profile env mc_access_token) (\<lambda>profile.
     bind (time_time env) (\<lambda>t.
     bind (lift (py_add t mc_expires_in)) (\<lambda>expires_at.
     bind (lift (subscript profile ''name'')) (\<lambda>username.
     bind (lift (subscript profile ''id'')) (\<lambda>uuid.
     bind (lift (dict_get profile ''skins'' (JList []))) (\<lambda>skins.
     return (JObj [(''access_token'', mc_access_token),
                   (''expires_at'', expires_at),
                   (''username'', username),
                   (''uuid'', uuid),
                   (''skins'', skins)]))))))))))))))))))))))"

text \<open>\<^verbatim>\<open>f.write(v)\<close> and the end of the \<^verbatim>\<open>with\<close> block: only a \<^verbatim>\<open>str\<close> can be written.\<close>

definition f_write :: "string \<Rightarrow> json \<Rightarrow> unit prog" where
  "f_write name v = (case v of JStr s \<Rightarrow> write_close name (Text s) | _ \<Rightarrow> raise TypeError)"

text \<open>
  The lines with which \<^verbatim>\<open>login\<close> and \<^verbatim>\<open>refresh\<close> write the bearer file, up to the end
  of the \<^verbatim>\<open>with\<close> block: \<^verbatim>\<open>token_path = get_data_dir() / "access_token"\<close>, then
  \<^verbatim>\<open>with open(token_path, 'w') as f: f.write(mc_data["access_token"])\<close>. The value is
  the path; the \<^verbatim>\<open>os.chmod(token_path, 0o600)\<close> that follows is not part of it.
\<close>

definition access_token_write :: "env \<Rightarrow> json \<Rightarrow> string prog" where
  "access_token_write env mc_data =
     bind (get_data_dir env) (\<lambda>dir.
     (let token_path = dir @ ''/access_token'' in
      bind (open_w env ''access_token'') (\<lambda>_.
      bind (lift (subscript mc_data ''access_token'')) (\<lambda>token.
      bind (f_write ''access_token'' token) (\<lambda>_.
      return token_path)))))"

text \<open>The check mark U+2713 that starts the success messages, as its UTF-8 bytes.\<close>

definition check_mark :: string where
  "check_mark = [CHR 0xE2, CHR 0x9C, CHR 0x93]"

text \<open>The body of the \<^verbatim>\<open>try\<close> block of \<^verbatim>\<open>login\<close>.\<close>

definition login_try :: "env \<Rightarrow> string \<Rightarrow> unit prog" where
  "login_try env code =
     bind (echo [Lit (CHR 0x0A # ''Exchanging code for tokens...'')]) (\<lambda>_.
     bind (exchange_code_for_token env code) (\<lambda>ms_tokens.
     bind (lift (subscript ms_tokens ''access_token'')) (\<lambda>access_token.
     bind (lift (dict_get ms_tokens ''refresh_token'' JNull)) (\<lambda>refresh_token.
     bind (time_time env) (\<lambda>t.
     bind (lift (dict_get ms_tokens ''expires_in'' (JInt 3600))) (\<lambda>expires_in.
     bind (lift (py_add t expires_in)) (\<lambda>expires_at.
     bind (save_tokens env
             (JObj [(''access_token'', access_token),
                    (''refresh_token'', refresh_token),
                    (''expires_at'', expires_at)])
             ''microsoft_token.json'') (\<lambda>_.
     bind (lift (subscript ms_tokens ''access_token'')) (\<lambda>ms_access_token.
     bind (full_auth_flow env ms_access_token) (\<lambda>mc_data.
     bind (save_tokens env mc_data ''minecraft_token.json'') (\<lambda>_.
     bind (access_token_write env mc_data) (\<lambda>token_path.
     bind (os_chmod ''access_token'' 0x180) (\<lambda>_.
     bind (lift (subscript mc_data ''username'')) (\<lambda>username.
     bind (lift (subscript mc_data ''uuid'')) (\<lambda>uuid.
     bind (echo [Lit (CHR 0x0A # check_mark @ '' Logged in as ''), Val username,
                 Lit '' (UUID: '', Val uuid, Lit '')'']) (\<lambda>_.
     bind (get_data_dir env) (\<lambda>dir.
     bind (echo [Lit ''  Tokens saved to '', Lit dir]) (\<lambda>_.
     bind (echo [Lit (CHR 0x0A # ''  Use this in your nixcraft config:'')]) (\<lambda>_.
     echo [Lit (''    accessTokenPath = '' @ [CHR 0x22]), Lit token_path,
           Lit [CHR 0x22, CHR '';'']])))))))))))))))))))"

text \<open>The \<^verbatim>\<open>except requests.HTTPError as e\<close> block of \<^verbatim>\<open>login\<close>.\<close>

definition login_except :: "string \<Rightarrow> string option \<Rightarrow> unit prog" where
  "login_except msg text =
     bind (echo_err [Lit ''Authentication failed: '', Lit msg]) (\<lambda>_.
     bind (case text of
             None \<Rightarrow> return ()
           | Some body \<Rightarrow> echo_err [Lit ''Response: '', Lit body]) (\<lambda>_.
     sys_exit 1))"

definition login :: "env \<Rightarrow> unit prog" where
  "login env =
     (let auth_url = microsoft_oauth_url in
      bind (echo [Lit ''Opening browser for Microsoft login...'']) (\<lambda>_.
      bind (echo [Lit (CHR 0x0A # ''If browser doesn't open, visit:'' @ [CHR 0x0A]),
                  Lit auth_url, Lit [CHR 0x0A]]) (\<lambda>_.
      bind (webbrowser_open auth_url) (\<lambda>_.
      bind (echo [Lit ''After logging in, you'll be redirected to a page that may show an error.'']) (\<lambda>_.
      bind (echo [Lit (''Copy the ENTIRE URL from your browser's address bar and paste it here.''
                       @ [CHR 0x0A])]) (\<lambda>_.
      bind (click_prompt env) (\<lambda>redirect_url.
      (case query_params env redirect_url ''code'' of
         None \<Rightarrow>
           bind (echo_err [Lit ''Error: No authorization code found in URL.'']) (\<lambda>_.
           bind (echo_err [Lit ''Make sure you copied the entire URL including 'code=' parameter.'']) (\<lambda>_.
           sys_exit 1))
       | Some codes \<Rightarrow>
           bind (lift (case codes of [] \<Rightarrow> Inl IndexError | c # _ \<Rightarrow> Inr c)) (\<lambda>code.
           try_except (login_try env code) login_except)))))))))"

text \<open>
  The body of the \<^verbatim>\<open>try\<close> block of \<^verbatim>\<open>refresh\<close>. In
  \<^verbatim>\<open>new_ms_tokens.get("refresh_token", ms_tokens["refresh_token"])\<close> the default is
  an argument, hence evaluated before the call.
\<close>

definition refresh_try :: "env \<Rightarrow> json \<Rightarrow> unit prog" where
  "refresh_try env ms_tokens =
     bind (echo [Lit ''Refreshing Microsoft token...'']) (\<lambda>_.
     bind (lift (subscript ms_tokens ''refresh_token'')) (\<lambda>stored_refresh_token.
     bind (refresh_microsoft_token env stored_refresh_token) (\<lambda>new_ms_tokens.
     bind (lift (subscript new_ms_tokens ''access_token'')) (\<lambda>access_token.
     bind (lift (subscript ms_tokens ''refresh_token'')) (\<lambda>fallback.
     bind (lift (dict_get new_ms_tokens ''refresh_token'' fallback)) (\<lambda>refresh_token.
     bind (time_time env) (\<lambda>t.
     bind (lift (dict_get new_ms_tokens ''expires_in'' (JInt 3600))) (\<lambda>expires_in.
     bind (lift (py_add t expires_in)) (\<lambda>expires_at.
     bind (save_tokens env
             (JObj [(''access_token'', access_token),
                    (''refresh_token'', refresh_token),
                    (''expires_at'', expires_at)])
             ''microsoft_token.json'') (\<lambda>_.
     bind (lift (subscript new_ms_tokens ''access_token'')) (\<lambda>ms_access_token.
     bind (full_auth_flow env ms_access_token) (\<lambda>mc_data.
     bind (save_tokens env mc_data ''minecraft_token.json'') (\<lambda>_.
     bind (access_token_write env mc_data) (\<lambda>token_path.
     bind (os_chmod ''access_token'' 0x180) (\<lambda>_.
     bind (lift (subscript mc_data ''username'')) (\<lambda>username.
     echo [Lit (check_mark @ '' Tokens refreshed for ''), Val username]))))))))))))))))"

text \<open>The \<^verbatim>\<open>except requests.HTTPError as e\<close> block of \<^verbatim>\<open>refresh\<close>.\<close>

definition refresh_except :: "string \<Rightarrow> string option \<Rightarrow> unit prog" where
  "refresh_except msg text =
     bind (echo_err [Lit ''Refresh failed: '', Lit msg]) (\<lambda>_.
     bind (echo_err [Lit ''You may need to run 'nixcraft-auth login' again.'']) (\<lambda>_.
     sys_exit 1))"

definition refresh :: "env \<Rightarrow> unit prog" where
  "refresh env =
     bind (load_tokens env ''microsoft_token.json'') (\<lambda>ms_tokens.
     bind (if \<not> truthy ms_tokens then return True
           else bind (lift (dict_get ms_tokens ''refresh_token'' JNull)) (\<lambda>r.
                return (\<not> truthy r))) (\<lambda>missing.
     if missing then
       bind (echo_err [Lit ''No refresh token found. Please run 'nixcraft-auth login' first.'']) (\<lambda>_.
       sys_exit 1)
     else
       try_except (refresh_try env ms_tokens) refresh_except))"

section \<open>Session facade\<close>

definition status :: "env \<Rightarrow> unit prog" where
  "status env =
     bind (load_tokens env ''minecraft_token.json'') (\<lambda>mc_tokens.
     if \<not> truthy mc_tokens then
       echo [Lit ''Not logged in. Run 'nixcraft-auth login' to authenticate.'']
     else
       bind (lift (dict_get mc_tokens ''username'' (JStr ''Unknown''))) (\<lambda>username.
       bind (lift (dict_get mc_tokens ''uuid'' (JStr ''Unknown''))) (\<lambda>uuid.
       bind (lift (dict_get mc_tokens ''expires_at'' (JInt 0))) (\<lambda>expires_at.
       bind (time_time env) (\<lambda>now.
       bind (lift (case as_int expires_at of
                     None \<Rightarrow> Inl TypeError
                   | Some e \<Rightarrow>
                       if e > now then
                         (let remaining = e - now;
                              hours = remaining div 3600;
                              minutes = (remaining mod 3600) div 60
                          in Inr [Lit ''Valid ('', Val (JInt hours), Lit ''h '',
                                  Val (JInt minutes), Lit ''m remaining)''])
                       else Inr [Lit ''Expired (run 'nixcraft-auth refresh')''])) (\<lambda>status.
       bind (echo [Lit ''Username: '', Val username]) (\<lambda>_.
       bind (echo [Lit ''UUID: '', Val uuid]) (\<lambda>_.
       bind (echo (Lit ''Token: '' # status)) (\<lambda>_.
       bind (get_data_dir env) (\<lambda>dir.
       echo [Lit ''Data dir: '', Lit dir]))))))))))"

definition path_exists :: "string \<Rightarrow> bool prog" where
  "path_exists name w = (Inr (files w name \<noteq> None), w)"

definition path_unlink :: "string \<Rightarrow> unit prog" where
  "path_unlink name w = (Inr (), w\<lparr>files := (files w)(name := None)\<rparr>)"

text \<open>The \<^verbatim>\<open>for filename in files\<close> loop of \<^verbatim>\<open>logout\<close>, with its counter.\<close>

fun logout_loop :: "string list \<Rightarrow> int \<Rightarrow> int prog" where
  "logout_loop [] removed = return removed"
| "logout_loop (filename # rest) removed =
     bind (path_exists filename) (\<lambda>there.
     if there then bind (path_unlink filename) (\<lambda>_. logout_loop rest (removed + 1))
     else logout_loop rest removed)"

definition logout :: "env \<Rightarrow> unit prog" where
  "logout env =
     bind (get_data_dir env) (\<lambda>data_dir.
     bind (logout_loop [''microsoft_token.json'', ''minecraft_token.json'', ''access_token''] 0) (\<lambda>removed.
     if removed > 0 then
       echo [Lit (check_mark @ '' Removed ''), Val (JInt removed), Lit '' auth file(s)'']
     else
       echo [Lit ''No auth files to remove'']))"

definition token_path :: "env \<Rightarrow> unit prog" where
  "token_path env =
     bind (get_data_dir env) (\<lambda>dir. echo [Lit (dir @ ''/access_token'')])"

text \<open>
  The exit status of a command: 0 when it returns, the argument of \<^verbatim>\<open>sys.exit\<close>, and 1
  when an exception reaches the interpreter.
\<close>

fun exit_status :: "exn + unit \<Rightarrow> int" where
  "exit_status (Inr _) = 0"
| "exit_status (Inl (SystemExit n)) = n"
| "exit_status (Inl _) = 1"

section \<open>Notions used by the properties\<close>

text \<open>
  \<open>wp m Q w\<close>: running \<open>m\<close> from \<open>w\<close> ends in a result and a world that satisfy \<open>Q\<close>.
\<close>

definition wp :: "'a prog \<Rightarrow> (exn + 'a \<Rightarrow> world \<Rightarrow> bool) \<Rightarrow> world \<Rightarrow> bool" where
  "wp m Q w = (case m w of (r, w') \<Rightarrow> Q r w')"

text \<open>Every exchange of a run was answered with a response that passed \<^verbatim>\<open>raise_for_status\<close>.\<close>

definition all_ok :: "(request \<times> response) list \<Rightarrow> bool" where
  "all_ok xs = list_all (\<lambda>x. case snd x of Ok v \<Rightarrow> True | _ \<Rightarrow> False) xs"

text \<open>
  The lifetime a token response declares: its \<^verbatim>\<open>expires_in\<close> read as a number, the
  fallback when the key is missing, nothing when the value is not a number.
\<close>

definition expires_in_or :: "int \<Rightarrow> (string \<times> json) list \<Rightarrow> int option" where
  "expires_in_or dflt kvs =
     (case map_of kvs ''expires_in'' of None \<Rightarrow> Some dflt | Some v \<Rightarrow> as_int v)"



subsection \<open>The end-to-end scenario of the specification\<close>

definition scenario_server :: "nat \<Rightarrow> request \<Rightarrow> response" where
  "scenario_server n q =
     (case q of
        ExchangeCode c \<Rightarrow>
          if c = ''ABC123''
          then Ok (JObj [(''access_token'', JStr ''MA''), (''expires_in'', JInt 3600)])
          else Rejected ''400 Client Error'' ''invalid_grant''
      | RefreshToken r \<Rightarrow>
          if r = JStr ''R1''
          then Ok (JObj [(''access_token'', JStr ''MA2'')])
          else Rejected ''400 Client Error'' ''invalid_grant''
      | XboxLive t \<Rightarrow>
          Ok (JObj [(''Token'', JStr ''XBL''),
                    (''DisplayClaims'', JObj [(''xui'', JList [JObj [(''uhs'', JStr ''H1'')]])])])
      | XSTS t \<Rightarrow> Ok (JObj [(''Token'', JStr ''XSTS1'')])
      | MinecraftAuth x h \<Rightarrow>
          Ok (JObj [(''access_token'', JStr ''MC1''), (''expires_in'', JInt 86400)])
      | Profile t \<Rightarrow>
          Ok (JObj [(''id'', JStr ''uuid1''), (''name'', JStr ''Steve''), (''skins'', JList [])]))"

definition scenario_env :: env where
  "scenario_env =
     \<lparr>home = ''/home/steve'', umask = 0x12, clock = (\<lambda>n. 1000 + int n),
      server = scenario_server,
      pasted = ''https://login.live.com/oauth20_desktop.srf?code=ABC123'',
      query_params =
        (\<lambda>url. if url = ''https://login.live.com/oauth20_desktop.srf?code=ABC123''
              then [''code'' \<mapsto> [''ABC123'']] else Map.empty)\<rparr>"

text \<open>A machine on which nothing has been stored yet.\<close>

definition fresh :: world where
  "fresh = \<lparr>dir_exists = False, files = Map.empty, ticks = 0, traffic = [],
            browser = [], console = []\<rparr>"

text \<open>The user pastes a redirect URL that carries an error and no code.\<close>

definition denied_env :: env where
  "denied_env =
     scenario_env\<lparr>pasted := ''https://login.live.com/oauth20_desktop.srf?error=access_denied''\<rparr>"

text \<open>A machine on which an earlier run stored its three artifacts, with refresh token \<open>rt\<close>.\<close>

definition stored :: "string \<Rightarrow> world" where
  "stored rt =
     \<lparr>dir_exists = True,
      files = [''microsoft_token.json'' \<mapsto>
                 \<lparr>data = Doc (JObj [(''access_token'', JStr ''MA''),
                                    (''refresh_token'', JStr rt),
                                    (''expires_at'', JInt 4600)]), perm = 0x180\<rparr>,
               ''minecraft_token.json'' \<mapsto>
                 \<lparr>data = Doc (JObj [(''access_token'', JStr ''MC0''),
                                    (''expires_at'', JInt 87401),
                                    (''username'', JStr ''Steve''),
                                    (''uuid'', JStr ''uuid1''),
                                    (''skins'', JList [])]), perm = 0x180\<rparr>,
               ''access_token'' \<mapsto> \<lparr>data = Text ''MC0'', perm = 0x180\<rparr>],
      ticks = 0, traffic = [], browser = [], console = []\<rparr>"

section \<open>The token store sets mode 0600 after the write\<close>

lemma entry_overwrite: "(e::entry)\<lparr>data := c, perm := m\<rparr> = \<lparr>data = c, perm = m\<rparr>"
  by (cases e) simp










section \<open>Commands that need no provider\<close>

lemmas prims = return_def raise_def lift_def bind_def sys_exit_def echo_def echo_err_def
  webbrowser_open_def click_prompt_def time_time_def get_data_dir_def

text \<open>
  C9: when the query string of the pasted redirect URL has no \<open>code\<close> parameter,
  \<^verbatim>\<open>login\<close> ends with \<^verbatim>\<open>sys.exit(1)\<close> having sent no request, written no file,
  not created the data directory and not read the clock.
\<close>

theorem login_without_code:
  assumes "query_params env (pasted env) ''code'' = None"
  shows "fst (login env w) = Inl (SystemExit 1)
       \<and> exit_status (fst (login env w)) = 1
       \<and> traffic (snd (login env w)) = traffic w
       \<and> files (snd (login env w)) = files w
       \<and> dir_exists (snd (login env w)) = dir_exists w
       \<and> ticks (snd (login env w)) = ticks w"
  using assms by (simp add: login_def Let_def prims)

theorem login_without_code_witness:
  "query_params denied_env (pasted denied_env) ''code'' = None
   \<and> fst (login denied_env fresh) = Inl (SystemExit 1)
   \<and> exit_status (fst (login denied_env fresh)) = 1
   \<and> traffic (snd (login denied_env fresh)) = []
   \<and> files (snd (login denied_env fresh)) = Map.empty
   \<and> dir_exists (snd (login denied_env fresh)) = False"
proof -
  have h: "query_params denied_env (pasted denied_env) ''code'' = None"
    by (simp add: denied_env_def scenario_env_def)
  show ?thesis
    using h login_without_code [OF h, of fresh] by (simp add: fresh_def)
qed

text \<open>
  C2: \<^verbatim>\<open>refresh\<close> reaches its first hop when the provider-token record is a non-empty
  dict with a truthy \<open>refresh_token\<close>. When the provider rejects that request, the
  command prints that a new login may be needed, ends with \<^verbatim>\<open>sys.exit(1)\<close>, has sent
  that one request only, and leaves every file as it was.
\<close>

theorem refresh_rejected:
  assumes "files w ''microsoft_token.json'' = Some f"
    and "data f = Doc (JObj kvs)"
    and "map_of kvs ''refresh_token'' = Some rt"
    and "truthy rt"
    and "server env (length (traffic w)) (RefreshToken rt) = Rejected msg body"
  shows "fst (refresh env w) = Inl (SystemExit 1)
       \<and> exit_status (fst (refresh env w)) = 1
       \<and> files (snd (refresh env w)) = files w
       \<and> traffic (snd (refresh env w)) = traffic w @ [(RefreshToken rt, Rejected msg body)]
       \<and> console (snd (refresh env w)) = console w @
            [(Stdout, [Lit ''Refreshing Microsoft token...'']),
             (Stderr, [Lit ''Refresh failed: '', Lit msg]),
             (Stderr, [Lit ''You may need to run 'nixcraft-auth login' again.''])]"
proof -
  from assms(3) have ne: "kvs \<noteq> []" by auto
  show ?thesis
    using assms ne
    by (simp add: refresh_def refresh_try_def refresh_except_def load_tokens_def
        refresh_microsoft_token_def http_def try_except_def prims)
qed

theorem refresh_rejected_witness:
  "files (stored ''R0'') ''microsoft_token.json'' =
     Some \<lparr>data = Doc (JObj [(''access_token'', JStr ''MA''), (''refresh_token'', JStr ''R0''),
                             (''expires_at'', JInt 4600)]), perm = 0x180\<rparr>
   \<and> truthy (JStr ''R0'')
   \<and> server scenario_env 0 (RefreshToken (JStr ''R0'')) =
       Rejected ''400 Client Error'' ''invalid_grant''
   \<and> fst (refresh scenario_env (stored ''R0'')) = Inl (SystemExit 1)
   \<and> exit_status (fst (refresh scenario_env (stored ''R0''))) = 1
   \<and> files (snd (refresh scenario_env (stored ''R0''))) = files (stored ''R0'')"
proof -
  let ?f = "\<lparr>data = Doc (JObj [(''access_token'', JStr ''MA''), (''refresh_token'', JStr ''R0''),
                             (''expires_at'', JInt 4600)]), perm = 0x180\<rparr>"
  have h1: "files (stored ''R0'') ''microsoft_token.json'' = Some ?f"
    by (simp add: stored_def)
  have h2: "data ?f = Doc (JObj [(''access_token'', JStr ''MA''), (''refresh_token'', JStr ''R0''),
                             (''expires_at'', JInt 4600)])"
    by simp
  have h3: "map_of [(''access_token'', JStr ''MA''), (''refresh_token'', JStr ''R0''),
                    (''expires_at'', JInt 4600)] ''refresh_token'' = Some (JStr ''R0'')"
    by simp
  have h4: "truthy (JStr ''R0'')" by simp
  have h5: "server scenario_env (length (traffic (stored ''R0''))) (RefreshToken (JStr ''R0'')) =
              Rejected ''400 Client Error'' ''invalid_grant''"
    by (simp add: scenario_env_def scenario_server_def stored_def)
  from h5 have h5': "server scenario_env 0 (RefreshToken (JStr ''R0'')) =
              Rejected ''400 Client Error'' ''invalid_grant''"
    by (simp add: stored_def)
  show ?thesis
    using refresh_rejected [OF h1 h2 h3 h4 h5] h1 h4 h5' by simp
qed

text \<open>
  C8: \<^verbatim>\<open>logout\<close> never fails; afterwards none of the three artifacts exists and every
  other file is as before; it prints the number of artifacts that existed, or that
  there was nothing to remove. A second \<^verbatim>\<open>logout\<close> right after removes nothing and
  prints that there was nothing to remove.
\<close>

theorem logout_removes_present:
  "fst (logout env w) = Inr ()
   \<and> (\<forall>f. files (snd (logout env w)) f =
          (if f \<in> {''microsoft_token.json'', ''minecraft_token.json'', ''access_token''}
           then None else files w f))
   \<and> console (snd (logout env w)) = console w @
        [(Stdout,
          if filter (\<lambda>f. files w f \<noteq> None)
               [''microsoft_token.json'', ''minecraft_token.json'', ''access_token''] \<noteq> []
          then [Lit (check_mark @ '' Removed ''),
                Val (JInt (int (length (filter (\<lambda>f. files w f \<noteq> None)
                  [''microsoft_token.json'', ''minecraft_token.json'', ''access_token''])))),
                Lit '' auth file(s)'']
          else [Lit ''No auth files to remove''])]
   \<and> files (snd (logout env (snd (logout env w)))) = files (snd (logout env w))
   \<and> console (snd (logout env (snd (logout env w)))) =
        console (snd (logout env w)) @ [(Stdout, [Lit ''No auth files to remove''])]"
  by (simp add: logout_def path_exists_def path_unlink_def prims)

text \<open>
  C7: for a stored service credential whose \<open>expires_at\<close> is the integer \<open>e\<close>,
  \<^verbatim>\<open>status\<close> returns and prints four lines, the third being \<open>Token: \<close> followed by
  the status text. That text is the expired one exactly when the clock reads \<open>e\<close> or
  more, and the valid one, with the remaining hours and minutes, exactly when the clock
  reads less than \<open>e\<close>.
\<close>

theorem status_reports:
  assumes "files w ''minecraft_token.json'' = Some f"
    and "data f = Doc (JObj kvs)"
    and "map_of kvs ''expires_at'' = Some (JInt e)"
  shows "\<exists>l1 l2 tok l4.
     fst (status env w) = Inr () \<and>
     console (snd (status env w)) = console w @ [l1, l2, (Stdout, Lit ''Token: '' # tok), l4] \<and>
     (tok = [Lit ''Expired (run 'nixcraft-auth refresh')''] \<longleftrightarrow> e \<le> clock env (ticks w)) \<and>
     (tok = [Lit ''Valid ('', Val (JInt ((e - clock env (ticks w)) div 3600)), Lit ''h '',
             Val (JInt (((e - clock env (ticks w)) mod 3600) div 60)), Lit ''m remaining)'']
        \<longleftrightarrow> clock env (ticks w) < e)"
proof -
  from assms(3) have ne: "kvs \<noteq> []" by auto
  show ?thesis
  proof (cases "clock env (ticks w) < e")
    case True
    with assms ne show ?thesis
      by (simp add: status_def load_tokens_def prims Let_def)
  next
    case False
    with assms ne show ?thesis
      by (simp add: status_def load_tokens_def prims Let_def)
  qed
qed

theorem status_reports_witness:
  "files (stored ''R0'') ''minecraft_token.json'' =
     Some \<lparr>data = Doc (JObj [(''access_token'', JStr ''MC0''), (''expires_at'', JInt 87401),
                             (''username'', JStr ''Steve''), (''uuid'', JStr ''uuid1''),
                             (''skins'', JList [])]), perm = 0x180\<rparr>
   \<and> clock scenario_env (ticks (stored ''R0'')) = 1000
   \<and> (\<exists>l1 l2 l4.
        fst (status scenario_env (stored ''R0'')) = Inr () \<and>
        console (snd (status scenario_env (stored ''R0''))) =
          [l1, l2,
           (Stdout, [Lit ''Token: '', Lit ''Valid ('', Val (JInt 24), Lit ''h '',
                     Val (JInt 0), Lit ''m remaining)'']),
           l4])"
proof -
  let ?kvs = "[(''access_token'', JStr ''MC0''), (''expires_at'', JInt 87401),
               (''username'', JStr ''Steve''), (''uuid'', JStr ''uuid1''),
               (''skins'', JList [])]"
  let ?f = "\<lparr>data = Doc (JObj ?kvs), perm = 0x180\<rparr>"
  have h1: "files (stored ''R0'') ''minecraft_token.json'' = Some ?f"
    by (simp add: stored_def)
  have h2: "data ?f = Doc (JObj ?kvs)" by simp
  have h3: "map_of ?kvs ''expires_at'' = Some (JInt 87401)" by simp
  have c: "clock scenario_env (ticks (stored ''R0'')) = 1000"
    by (simp add: scenario_env_def stored_def)
  have e: "console (stored ''R0'') = []" by (simp add: stored_def)
  from status_reports [OF h1 h2 h3, of scenario_env] obtain l1 l2 tok l4 where
    r: "fst (status scenario_env (stored ''R0'')) = Inr ()" and
    k: "console (snd (status scenario_env (stored ''R0''))) =
          console (stored ''R0'') @ [l1, l2, (Stdout, Lit ''Token: '' # tok), l4]" and
    v: "tok = [Lit ''Valid ('', Val (JInt ((87401 - clock scenario_env (ticks (stored ''R0''))) div 3600)),
               Lit ''h '',
               Val (JInt (((87401 - clock scenario_env (ticks (stored ''R0''))) mod 3600) div 60)),
               Lit ''m remaining)'']
        \<longleftrightarrow> clock scenario_env (ticks (stored ''R0'')) < 87401"
    by blast
  from v c have "tok = [Lit ''Valid ('', Val (JInt 24), Lit ''h '', Val (JInt 0), Lit ''m remaining)'']"
    by simp
  with h1 c r k e show ?thesis by simp
qed

end
